theory Spec2Isabelle
  imports Main "HOL-Library.Char_ord" "HOL-Library.List_Lexorder"
begin

section \<open>Python values used by the backend\<close>

text \<open>
  A Python \<^verbatim>\<open>dict\<close> keeps its keys in insertion order, so it is an association list
  whose keys are distinct. Assigning to a key that is present replaces the value in
  place; assigning to a new key appends the entry at the end.
\<close>

type_synonym ('k, 'v) pydict = "('k \<times> 'v) list"

definition dict_get :: "('k, 'v) pydict \<Rightarrow> 'k \<Rightarrow> 'v option" where
  "dict_get d k = map_of d k"

fun dict_set :: "('k, 'v) pydict \<Rightarrow> 'k \<Rightarrow> 'v \<Rightarrow> ('k, 'v) pydict" where
  "dict_set [] k v = [(k, v)]"
| "dict_set ((k', v') # d) k v =
     (if k' = k then (k, v) # d else (k', v') # dict_set d k v)"

definition dict_del :: "('k, 'v) pydict \<Rightarrow> 'k \<Rightarrow> ('k, 'v) pydict" where
  "dict_del d k = filter (\<lambda>kv. fst kv \<noteq> k) d"

definition dict_keys :: "('k, 'v) pydict \<Rightarrow> 'k list" where
  "dict_keys d = map fst d"

text \<open>\<^verbatim>\<open>dict(items)\<close>: the entries are assigned one after the other.\<close>

definition py_dict :: "('k \<times> 'v) list \<Rightarrow> ('k, 'v) pydict" where
  "py_dict items = foldl (\<lambda>d kv. dict_set d (fst kv) (snd kv)) [] items"

text \<open>
  Strings are lists of 8-bit characters, so the model covers the strings whose code
  points are below 256. \<^verbatim>\<open>str.strip()\<close> removes the characters that \<^verbatim>\<open>str.isspace\<close>
  accepts from both ends; \<^verbatim>\<open>str.strip(chars)\<close> removes the listed characters.
\<close>

definition py_isspace :: "char \<Rightarrow> bool" where
  "py_isspace c = (c \<in> set [CHR 0x09, CHR 0x0A, CHR 0x0B, CHR 0x0C, CHR 0x0D,
     CHR 0x1C, CHR 0x1D, CHR 0x1E, CHR 0x1F, CHR 0x20, CHR 0x85, CHR 0xA0])"

definition strip_where :: "(char \<Rightarrow> bool) \<Rightarrow> string \<Rightarrow> string" where
  "strip_where P s = rev (dropWhile P (rev (dropWhile P s)))"

definition py_strip :: "string \<Rightarrow> string" where
  "py_strip s = strip_where py_isspace s"

definition py_strip_chars :: "string \<Rightarrow> string \<Rightarrow> string" where
  "py_strip_chars chars s = strip_where (\<lambda>c. c \<in> set chars) s"

text \<open>\<^verbatim>\<open>s.split(sep)\<close> for a one-character separator: never the empty list.\<close>

fun py_split :: "char \<Rightarrow> string \<Rightarrow> string list" where
  "py_split sep [] = [[]]"
| "py_split sep (c # cs) =
     (if c = sep then [] # py_split sep cs
      else (case py_split sep cs of [] \<Rightarrow> [[c]] | w # ws \<Rightarrow> (c # w) # ws))"

fun startswith :: "string \<Rightarrow> string \<Rightarrow> bool" where
  "startswith s [] = True"
| "startswith [] (p # ps) = False"
| "startswith (c # cs) (p # ps) = (c = p \<and> startswith cs ps)"

text \<open>\<^verbatim>\<open>sub in s\<close> on strings: \<open>sub\<close> occurs in \<open>s\<close> as a contiguous block.\<close>

fun py_in :: "string \<Rightarrow> string \<Rightarrow> bool" where
  "py_in sub [] = (sub = [])"
| "py_in sub (c # cs) = (startswith (c # cs) sub \<or> py_in sub cs)"

text \<open>
  The exceptions that the backend meets, each with the text that \<^verbatim>\<open>str(e)\<close> gives. A
  function that may raise returns a sum: \<open>Inl\<close> is the exception, \<open>Inr\<close> the value.
\<close>

datatype exn =
    KeyError string
  | TypeError string
  | ValueError string
  | AttributeError string
  | DownloadError string

text \<open>
  A JSON value after \<^verbatim>\<open>json.loads\<close>, and Python's truth test on it: \<^verbatim>\<open>None\<close>, \<^verbatim>\<open>False\<close>,
  zero and the empty string, list and dictionary are falsy.
\<close>

datatype json_value =
    JsonNull
  | JsonBool bool
  | JsonNumber int
  | JsonString string
  | JsonArray "json_value list"
  | JsonObject "(string \<times> json_value) list"

fun json_truthy :: "json_value \<Rightarrow> bool" where
  "json_truthy JsonNull = False"
| "json_truthy (JsonBool b) = b"
| "json_truthy (JsonNumber n) = (n \<noteq> 0)"
| "json_truthy (JsonString s) = (s \<noteq> [])"
| "json_truthy (JsonArray xs) = (xs \<noteq> [])"
| "json_truthy (JsonObject members) = (members \<noteq> [])"

section \<open>Site matcher\<close>

text \<open>
  \<^verbatim>\<open>get_site_config(url, download_dirs)\<close> of \<^verbatim>\<open>yt_backend.py\<close>. Two functions of the
  standard library are parameters of the model: \<^verbatim>\<open>urllib.parse.urlparse(url).hostname\<close>,
  which raises \<^verbatim>\<open>ValueError\<close> on a string it rejects (such as \<^verbatim>\<open>http://[::1\<close>) and is \<open>None\<close>
  when the URL has no host, and \<^verbatim>\<open>fnmatch.fnmatch(name, pattern)\<close>.
  A site configuration is the JSON object stored under a pattern group, a dictionary
  from keys such as \<^verbatim>\<open>dir\<close> and \<^verbatim>\<open>args\<close> to strings.
\<close>

record pylib =
  urlparse_hostname :: "string \<Rightarrow> exn + string option"
  fnmatch :: "string \<Rightarrow> string \<Rightarrow> bool"

type_synonym site_config = "(string, string) pydict"

text \<open>
  \<^verbatim>\<open>parsed = urllib.parse.urlparse(url)\<close> followed by \<^verbatim>\<open>parsed.hostname or default\<close>: the
  exception of \<^verbatim>\<open>urlparse\<close> is not caught, and \<open>None\<close> and the empty string are both falsy.
\<close>

definition hostname_or :: "pylib \<Rightarrow> string \<Rightarrow> string \<Rightarrow> exn + string" where
  "hostname_or L url dflt =
     (case urlparse_hostname L url of
        Inl e \<Rightarrow> Inl e
      | Inr None \<Rightarrow> Inr dflt
      | Inr (Some h) \<Rightarrow> Inr (if h = [] then dflt else h))"

text \<open>\<^verbatim>\<open>if matched_cfg:\<close> \<comment> \<open>None\<close> is falsy, and so is an empty dictionary.\<close>

definition truthy_cfg :: "site_config option \<Rightarrow> bool" where
  "truthy_cfg m = (case m of None \<Rightarrow> False | Some cfg \<Rightarrow> cfg \<noteq> [])"

text \<open>\<^verbatim>\<open>[p.strip() for p in pattern_group.split(",") if p.strip()]\<close>\<close>

definition group_patterns :: "string \<Rightarrow> string list" where
  "group_patterns pattern_group =
     map py_strip (filter (\<lambda>p. py_strip p \<noteq> []) (py_split (CHR '','') pattern_group))"

text \<open>\<^verbatim>\<open>fnmatch(hostname, pattern) or pattern.strip("*") in hostname\<close>\<close>

definition pattern_hit :: "pylib \<Rightarrow> string \<Rightarrow> string \<Rightarrow> bool" where
  "pattern_hit L hostname pattern =
     (fnmatch L hostname pattern \<or> py_in (py_strip_chars ''*'' pattern) hostname)"

text \<open>
  The inner loop over the patterns of one group. The pair is the loop state
  \<open>(matched_pattern, matched_cfg)\<close>; a hit assigns both and breaks.
\<close>

fun scan_patterns :: "pylib \<Rightarrow> string \<Rightarrow> site_config \<Rightarrow> string list \<Rightarrow>
    string option \<times> site_config option \<Rightarrow> string option \<times> site_config option" where
  "scan_patterns L hostname cfg [] st = st"
| "scan_patterns L hostname cfg (pattern # ps) st =
     (if pattern_hit L hostname pattern then (Some pattern, Some cfg)
      else scan_patterns L hostname cfg ps st)"

text \<open>The outer loop over the groups: it breaks when \<open>matched_cfg\<close> is truthy.\<close>

fun scan_groups :: "pylib \<Rightarrow> string \<Rightarrow> (string, site_config) pydict \<Rightarrow>
    string option \<times> site_config option \<Rightarrow> string option \<times> site_config option" where
  "scan_groups L hostname [] st = st"
| "scan_groups L hostname ((pattern_group, cfg) # rest) st =
     (let st' = scan_patterns L hostname cfg (group_patterns pattern_group) st
      in if truthy_cfg (snd st') then st' else scan_groups L hostname rest st')"

definition get_site_config ::
    "pylib \<Rightarrow> string \<Rightarrow> (string, site_config) pydict \<Rightarrow> exn + site_config option" where
  "get_site_config L url download_dirs =
     (case hostname_or L url [] of
        Inl e \<Rightarrow> Inl e
      | Inr hostname \<Rightarrow>
          (let st = scan_groups L hostname download_dirs (None, None)
           in Inr (if truthy_cfg (snd st) then snd st else None)))"

text \<open>
  The property in the words of the specification: the host name glob-matches the pattern,
  or the pattern with its wildcard characters stripped is a substring of the host name; a
  group qualifies when one of its patterns does, and the matcher answers with the
  configuration of the first qualifying group. The wildcard characters of a glob pattern
  are the asterisk, the question mark and the brackets.
\<close>

definition strip_all_wildcards :: "string \<Rightarrow> string" where
  "strip_all_wildcards p = filter (\<lambda>c. c \<notin> set ''*?[]'') p"

definition spec_pattern_hit :: "pylib \<Rightarrow> string \<Rightarrow> string \<Rightarrow> bool" where
  "spec_pattern_hit L h p = (fnmatch L h p \<or> py_in (strip_all_wildcards p) h)"

definition spec_group_qualifies :: "pylib \<Rightarrow> string \<Rightarrow> string \<Rightarrow> bool" where
  "spec_group_qualifies L h pattern_group =
     list_ex (spec_pattern_hit L h) (group_patterns pattern_group)"

definition spec_first_group ::
    "pylib \<Rightarrow> string \<Rightarrow> (string, site_config) pydict \<Rightarrow> site_config option" where
  "spec_first_group L h download_dirs =
     map_option snd (find (\<lambda>g. spec_group_qualifies L h (fst g)) download_dirs)"

text \<open>
  The test of the code: a group qualifies when one of its patterns is glob-matched by the
  host name or, stripped of its leading and trailing asterisks, occurs in the host name.
\<close>

definition group_qualifies :: "pylib \<Rightarrow> string \<Rightarrow> string \<Rightarrow> bool" where
  "group_qualifies L h pattern_group = list_ex (pattern_hit L h) (group_patterns pattern_group)"

text \<open>
  What the loops compute: the first qualifying group among those whose configuration
  is a non-empty dictionary.
\<close>

definition first_nonempty_group ::
    "pylib \<Rightarrow> string \<Rightarrow> (string, site_config) pydict \<Rightarrow> site_config option" where
  "first_nonempty_group L h download_dirs =
     map_option snd (find (\<lambda>g. snd g \<noteq> [] \<and> group_qualifies L h (fst g)) download_dirs)"

text \<open>
  An instance of the library for the examples below. \<open>glob_simple\<close> is \<^verbatim>\<open>fnmatch\<close> on the
  patterns built from literal characters, \<^verbatim>\<open>*\<close> and \<^verbatim>\<open>?\<close>. The URL parser of the instance
  rejects \<^verbatim>\<open>http://[::1\<close> as \<^verbatim>\<open>urlparse\<close> does (an opening bracket without its closing one),
  and reports the given host, or none when it is empty, for every other string.
\<close>

fun glob_simple :: "string \<Rightarrow> string \<Rightarrow> bool" where
  "glob_simple [] [] = True"
| "glob_simple (c # cs) [] = False"
| "glob_simple [] (p # ps) = (p = CHR ''*'' \<and> glob_simple [] ps)"
| "glob_simple (c # cs) (p # ps) =
     (if p = CHR ''*'' then glob_simple (c # cs) ps \<or> glob_simple cs (p # ps)
      else (p = CHR ''?'' \<or> p = c) \<and> glob_simple cs ps)"

definition example_lib :: "string \<Rightarrow> pylib" where
  "example_lib host =
     \<lparr>urlparse_hostname =
        (\<lambda>url. if url = ''http://[::1'' then Inl (ValueError ''Invalid IPv6 URL'')
               else Inr (if host = [] then None else Some host)),
      fnmatch = glob_simple\<rparr>"

section \<open>Job tracker and download dispatcher\<close>

text \<open>
  The global \<^verbatim>\<open>JOBS\<close> maps a job id to \<^verbatim>\<open>{"url", "site", "status", "dir"}\<close>. The status
  is a plain string: \<^verbatim>\<open>"starting"\<close>, \<^verbatim>\<open>"running"\<close>, \<^verbatim>\<open>"completed"\<close> or \<^verbatim>\<open>"error: ..."\<close>.
\<close>

record job =
  job_url :: string
  job_site :: string
  job_status :: string
  job_dir :: string

type_synonym jobs = "(string, job) pydict"

definition JOB_HISTORY_LIMIT :: nat where
  "JOB_HISTORY_LIMIT = 10"

text \<open>The in-memory \<^verbatim>\<open>SETTINGS\<close>: the four keys that \<^verbatim>\<open>load_settings\<close> always provides.\<close>

record settings =
  default_dir :: string
  default_args :: string
  download_dirs :: "(string, site_config) pydict"
  show_toasts :: bool

text \<open>
  \<^verbatim>\<open>UPDATE_JOB\<close>. The time stamps are clock readings that are stored and never computed
  with.
\<close>

record update_job =
  upd_status :: string
  upd_message :: string
  started_at :: "nat option"
  finished_at :: "nat option"
  latest_version :: "string option"

text \<open>
  What a started background thread closes over: \<^verbatim>\<open>run_job\<close> keeps the job id, the URL,
  the download directory and the argument string of its request (the latter is \<open>None\<close>
  when the matched site configuration has no \<^verbatim>\<open>args\<close> key).
\<close>

record task =
  task_job_id :: string
  task_url :: string
  task_download_dir :: string
  task_custom_args :: "string option"

datatype thread = DownloadThread task | UpdateThread

record backend =
  SETTINGS :: settings
  JOBS :: jobs
  UPDATE_JOB :: update_job
  YTDLP_UPDATER_AVAILABLE :: bool
  started_threads :: "thread list"

datatype payload =
    ErrorPayload string
  | JobIdPayload string
  | JobsPayload jobs
  | StartedPayload
  | ClearedPayload
  | UpdateJobPayload update_job
  | InternalServerError
  | FrameworkAbort

datatype response = Response (http_code: nat) (http_body: payload)

text \<open>\<^verbatim>\<open>str(n)\<close> for a natural number: its decimal digits.\<close>

definition digit_char :: "nat \<Rightarrow> char" where
  "digit_char d = ''0123456789'' ! d"

function py_str_nat :: "nat \<Rightarrow> string" where
  "py_str_nat n =
     (if n < 10 then [digit_char n] else py_str_nat (n div 10) @ [digit_char (n mod 10)])"
  by pat_completeness auto
termination
  by (relation "measure id") auto

declare py_str_nat.simps [simp del]

text \<open>
  What one call of \<^verbatim>\<open>download()\<close> reads from its surroundings: \<open>now_ms\<close> is the value of
  \<^verbatim>\<open>int(time.time() * 1000)\<close>, and \<open>makedirs_ok\<close> says whether
  \<^verbatim>\<open>os.makedirs(download_dir, exist_ok=True)\<close> returns rather than raises.
\<close>

record dispatch_env =
  now_ms :: nat
  makedirs_ok :: bool

text \<open>
  What \<^verbatim>\<open>request.get_json()\<close> does with the body of a request: the framework aborts the
  request with a status of its own (415 when the body is not declared as JSON, 400 when it
  does not parse), or the call returns the parsed value.
\<close>

datatype get_json_result = GetJsonAborted nat | GetJsonReturned json_value

text \<open>
  Lines 348 to 417 of \<^verbatim>\<open>download()\<close>, for a URL that passed the test of line 345. An
  exception that leaves the handler is the framework's response 500: \<^verbatim>\<open>urlparse\<close> rejects
  the URL, a missing \<^verbatim>\<open>dir\<close> key makes \<^verbatim>\<open>os.makedirs(None)\<close> raise, or the directory cannot
  be created. All of these happen before the job entry is written.
\<close>

definition dispatch_url ::
    "pylib \<Rightarrow> dispatch_env \<Rightarrow> string \<Rightarrow> backend \<Rightarrow> response \<times> backend" where
  "dispatch_url L env url B =
     (case hostname_or L url ''unknown'' of
        Inl e \<Rightarrow> (Response 500 InternalServerError, B)
      | Inr hostname \<Rightarrow>
          (case get_site_config L url (download_dirs (SETTINGS B)) of
             Inl e \<Rightarrow> (Response 500 InternalServerError, B)
           | Inr site_settings \<Rightarrow>
               (let download_dir =
                      (if truthy_cfg site_settings then dict_get (the site_settings) ''dir''
                       else Some (default_dir (SETTINGS B)));
                    custom_args =
                      (if truthy_cfg site_settings then dict_get (the site_settings) ''args''
                       else Some (default_args (SETTINGS B)))
                in (case download_dir of
                      None \<Rightarrow> (Response 500 InternalServerError, B)
                    | Some d \<Rightarrow>
                        (if \<not> makedirs_ok env then (Response 500 InternalServerError, B)
                         else
                           (let job_id = py_str_nat (now_ms env);
                                entry = \<lparr>job_url = url, job_site = hostname,
                                         job_status = ''starting'', job_dir = d\<rparr>;
                                t = \<lparr>task_job_id = job_id, task_url = url,
                                     task_download_dir = d, task_custom_args = custom_args\<rparr>
                            in (Response 200 (JobIdPayload job_id),
                                B\<lparr>JOBS := dict_set (JOBS B) job_id entry,
                                  started_threads :=
                                    started_threads B @ [DownloadThread t]\<rparr>)))))))"

text \<open>
  \<^verbatim>\<open>download()\<close> from its first line. \<^verbatim>\<open>data.get("url")\<close> raises when \<open>data\<close> is not a
  dictionary (\<^verbatim>\<open>None\<close>, a list, a string, a number), which is a response 500; line 345
  answers 400 when the field is absent or falsy; a truthy value that is not a string makes
  \<^verbatim>\<open>urlparse\<close> raise, again a response 500.
\<close>

definition download ::
    "pylib \<Rightarrow> dispatch_env \<Rightarrow> get_json_result \<Rightarrow> backend \<Rightarrow> response \<times> backend" where
  "download L env request B =
     (case request of
        GetJsonAborted code \<Rightarrow> (Response code FrameworkAbort, B)
      | GetJsonReturned data \<Rightarrow>
          (case data of
             JsonObject members \<Rightarrow>
               (case dict_get members ''url'' of
                  None \<Rightarrow> (Response 400 (ErrorPayload ''No URL provided''), B)
                | Some url \<Rightarrow>
                    (if \<not> json_truthy url
                     then (Response 400 (ErrorPayload ''No URL provided''), B)
                     else
                       (case url of
                          JsonString u \<Rightarrow> dispatch_url L env u B
                        | _ \<Rightarrow> (Response 500 InternalServerError, B))))
           | _ \<Rightarrow> (Response 500 InternalServerError, B)))"

text \<open>The request with the body \<^verbatim>\<open>{"url": u}\<close>.\<close>

definition url_request :: "string \<Rightarrow> get_json_result" where
  "url_request u = GetJsonReturned (JsonObject [(''url'', JsonString u)])"

subsection \<open>The background task of a job\<close>

text \<open>
  \<^verbatim>\<open>run_job\<close> is modelled as one uninterrupted run on the job store it finds. The outcomes
  of the two download engines are inputs: \<^verbatim>\<open>run_ytdlp_with_binary\<close> returns
  \<open>(returncode, stdout, stderr)\<close> or raises, and \<^verbatim>\<open>ydl.download\<close> returns or raises.
  The run keeps a trace of what it did, in order.
\<close>

datatype binary_result = BinaryExit int string string | BinaryRaised string

datatype library_result = LibraryOk | LibraryRaised string

record job_env =
  binary_result :: binary_result
  library_result :: library_result

datatype action = SetStatus string | BinaryAttempt | LibraryAttempt | EvictStep

datatype thread_end = Returned | Died exn

type_synonym run_state = "jobs \<times> action list"

record run_result =
  end_jobs :: jobs
  run_trace :: "action list"
  run_end :: thread_end

text \<open>\<^verbatim>\<open>str(e)\<close>: the text of the exception; a \<^verbatim>\<open>KeyError\<close> prints the quoted key.\<close>

definition str_exn :: "exn \<Rightarrow> string" where
  "str_exn e =
     (case e of
        KeyError k \<Rightarrow> [CHR 0x27] @ k @ [CHR 0x27]
      | TypeError m \<Rightarrow> m
      | ValueError m \<Rightarrow> m
      | AttributeError m \<Rightarrow> m
      | DownloadError m \<Rightarrow> m)"

text \<open>The text of the \<^verbatim>\<open>TypeError\<close> that \<^verbatim>\<open>'--embed-thumbnail' in None\<close> raises.\<close>

definition not_iterable :: string where
  "not_iterable =
     ''argument of type '' @ [CHR 0x27] @ ''NoneType'' @ [CHR 0x27] @ '' is not iterable''"

text \<open>\<^verbatim>\<open>JOBS[job_id]["status"] = s\<close>: a \<^verbatim>\<open>KeyError\<close> when the job is not tracked.\<close>

definition put_status :: "string \<Rightarrow> string \<Rightarrow> run_state \<Rightarrow> exn + run_state" where
  "put_status job_id s st =
     (case dict_get (fst st) job_id of
        None \<Rightarrow> Inl (KeyError job_id)
      | Some j \<Rightarrow>
          Inr (dict_set (fst st) job_id (j\<lparr>job_status := s\<rparr>), snd st @ [SetStatus s]))"

text \<open>
  Lines 385 to 398: the attempt with the external binary. The Boolean says whether the
  function returned (line 392). Every exception inside the inner \<^verbatim>\<open>try\<close> is logged and
  leaves the state as it was when it was raised.
\<close>

definition binary_phase :: "bool \<Rightarrow> task \<Rightarrow> job_env \<Rightarrow> run_state \<Rightarrow> bool \<times> run_state" where
  "binary_phase available t env st =
     (if \<not> available then (False, st)
      else
        let st1 = (fst st, snd st @ [BinaryAttempt])
        in case binary_result env of
             BinaryRaised m \<Rightarrow> (False, st1)
           | BinaryExit returncode out err \<Rightarrow>
               if returncode = 0 then
                 (case put_status (task_job_id t) ''completed'' st1 of
                    Inr st2 \<Rightarrow> (True, st2)
                  | Inl e \<Rightarrow> (False, st1))
               else
                 (case put_status (task_job_id t) (''error: '' @ err) st1 of
                    Inr st2 \<Rightarrow> (False, st2)
                  | Inl e \<Rightarrow> (False, st1)))"

text \<open>
  Lines 362 to 405, the body of the outer \<^verbatim>\<open>try\<close>: \<open>Inl\<close> is an exception together with
  the state at the raise, \<open>Inr\<close> the normal end with the flag of an early return.
  Testing \<^verbatim>\<open>'--embed-thumbnail' in custom_args\<close> raises when \<open>custom_args\<close> is \<open>None\<close>.
\<close>

definition try_body ::
    "bool \<Rightarrow> task \<Rightarrow> job_env \<Rightarrow> run_state \<Rightarrow> (exn \<times> run_state) + (bool \<times> run_state)" where
  "try_body available t env st =
     (case task_custom_args t of
        None \<Rightarrow> Inl (TypeError not_iterable, st)
      | Some custom_args \<Rightarrow>
          let (returned, st1) = binary_phase available t env st
          in if returned then Inr (True, st1)
             else
               let st2 = (fst st1, snd st1 @ [LibraryAttempt])
               in (case library_result env of
                     LibraryRaised m \<Rightarrow> Inl (DownloadError m, st2)
                   | LibraryOk \<Rightarrow>
                       (case put_status (task_job_id t) ''completed'' st2 of
                          Inl e \<Rightarrow> Inl (e, st2)
                        | Inr st3 \<Rightarrow> Inr (False, st3))))"

text \<open>
  Lines 411 to 414: \<^verbatim>\<open>for old in list(JOBS.keys())[:-JOB_HISTORY_LIMIT]: del JOBS[old]\<close>
  under the guard \<^verbatim>\<open>len(JOBS) > JOB_HISTORY_LIMIT\<close>.
\<close>

definition evict_old :: "jobs \<Rightarrow> jobs" where
  "evict_old J =
     (if length J > JOB_HISTORY_LIMIT
      then foldl dict_del J (take (length J - JOB_HISTORY_LIMIT) (dict_keys J))
      else J)"

definition cleanup :: "run_state \<Rightarrow> run_result" where
  "cleanup st =
     \<lparr>end_jobs = evict_old (fst st), run_trace = snd st @ [EvictStep], run_end = Returned\<rparr>"

definition run_job :: "bool \<Rightarrow> task \<Rightarrow> job_env \<Rightarrow> jobs \<Rightarrow> run_result" where
  "run_job available t env J =
     (case put_status (task_job_id t) ''running'' (J, []) of
        Inl e \<Rightarrow> \<lparr>end_jobs = J, run_trace = [], run_end = Died e\<rparr>
      | Inr st0 \<Rightarrow>
          (case try_body available t env st0 of
             Inr (returned, st) \<Rightarrow>
               if returned
               then \<lparr>end_jobs = fst st, run_trace = snd st, run_end = Returned\<rparr>
               else cleanup st
           | Inl (e, st) \<Rightarrow>
               (case put_status (task_job_id t) (''error: '' @ str_exn e) st of
                  Inl e' \<Rightarrow> \<lparr>end_jobs = fst st, run_trace = snd st, run_end = Died e'\<rparr>
                | Inr st' \<Rightarrow> cleanup st')))"

subsection \<open>Status routes\<close>

text \<open>\<^verbatim>\<open>xs[-n:]\<close> for a positive \<open>n\<close>.\<close>

definition last_n :: "nat \<Rightarrow> 'a list \<Rightarrow> 'a list" where
  "last_n n xs = (if length xs \<le> n then xs else drop (length xs - n) xs)"

text \<open>
  \<^verbatim>\<open>jsonify(dict(list(JOBS.items())[-JOB_HISTORY_LIMIT:]))\<close>. \<^verbatim>\<open>jsonify\<close> writes a dictionary with
  its keys sorted, the default of the framework that the backend leaves as it is: the
  body lists the jobs in ascending order of their id strings (compared character by
  character, a proper prefix first).
\<close>

definition jsonify_dict :: "(string, 'v) pydict \<Rightarrow> (string, 'v) pydict" where
  "jsonify_dict d = sort_key fst d"

definition status :: "backend \<Rightarrow> response" where
  "status B =
     Response 200 (JobsPayload (jsonify_dict (py_dict (last_n JOB_HISTORY_LIMIT (JOBS B)))))"

definition clear_status :: "backend \<Rightarrow> response \<times> backend" where
  "clear_status B = (Response 200 ClearedPayload, B\<lparr>JOBS := []\<rparr>)"

section \<open>Update orchestrator\<close>

text \<open>The initial value of the global \<^verbatim>\<open>UPDATE_JOB\<close> (line 307).\<close>

definition UPDATE_JOB_initial :: update_job where
  "UPDATE_JOB_initial =
     \<lparr>upd_status = ''idle'', upd_message = ''Idle'', started_at = None,
      finished_at = None, latest_version = None\<rparr>"

text \<open>
  The route \<^verbatim>\<open>update_yt_dlp_api\<close>: it answers 503 when the updater module is missing,
  and otherwise starts a thread that runs \<^verbatim>\<open>_do_update\<close> and answers at once. The
  handler itself writes nothing to \<^verbatim>\<open>UPDATE_JOB\<close>.
\<close>

definition update_yt_dlp_api :: "backend \<Rightarrow> response \<times> backend" where
  "update_yt_dlp_api B =
     (if \<not> YTDLP_UPDATER_AVAILABLE B
      then (Response 503 (ErrorPayload ''ytdlp_updater not available''), B)
      else (Response 200 StartedPayload,
            B\<lparr>started_threads := started_threads B @ [UpdateThread]\<rparr>))"

definition update_status :: "backend \<Rightarrow> response" where
  "update_status B = Response 200 (UpdateJobPayload (UPDATE_JOB B))"

text \<open>
  What one run of \<^verbatim>\<open>_do_update\<close> reads from its surroundings: the two clock readings,
  the Boolean that \<^verbatim>\<open>download_latest_ytdlp()\<close> returns (it catches its own exceptions),
  and the outcome of \<^verbatim>\<open>ensure_ytdlp_binary()\<close>, a pair \<open>(path, version)\<close> or an exception.
\<close>

datatype ensure_result = EnsureReturned "string option" "string option" | EnsureRaised string

record update_env =
  clock_start :: nat
  clock_finish :: nat
  download_ok :: bool
  ensure_result :: ensure_result

text \<open>\<^verbatim>\<open>f"{version}"\<close> prints \<^verbatim>\<open>None\<close> for a missing version.\<close>

definition fmt_opt :: "string option \<Rightarrow> string" where
  "fmt_opt v = (case v of None \<Rightarrow> ''None'' | Some x \<Rightarrow> x)"

text \<open>Line 318, the first write of the task.\<close>

definition do_update_begin :: "update_env \<Rightarrow> update_job \<Rightarrow> update_job" where
  "do_update_begin env U =
     U\<lparr>upd_status := ''running'', upd_message := ''Starting update...'',
       started_at := Some (clock_start env), finished_at := None\<rparr>"

text \<open>Lines 320 to 330, the write that ends the task.\<close>

definition do_update_end :: "update_env \<Rightarrow> update_job \<Rightarrow> update_job" where
  "do_update_end env U =
     (if download_ok env then
        (case ensure_result env of
           EnsureReturned path version \<Rightarrow>
             U\<lparr>upd_status := ''succeeded'', upd_message := ''Updated to '' @ fmt_opt version,
               finished_at := Some (clock_finish env), latest_version := version\<rparr>
         | EnsureRaised m \<Rightarrow>
             U\<lparr>upd_status := ''failed'', upd_message := m,
               finished_at := Some (clock_finish env)\<rparr>)
      else
        U\<lparr>upd_status := ''failed'', upd_message := ''Download failed'',
          finished_at := Some (clock_finish env)\<rparr>)"

definition do_update :: "update_env \<Rightarrow> update_job \<Rightarrow> update_job" where
  "do_update env U = do_update_end env (do_update_begin env U)"

subsection \<open>The backend as a machine\<close>

text \<open>
  The backend at import time, and the events that change its state: a request to one of
  the routes, or a step of a background thread. A schedule is any list of events.
\<close>

definition initial_backend :: "settings \<Rightarrow> bool \<Rightarrow> backend" where
  "initial_backend S available =
     \<lparr>SETTINGS = S, JOBS = [], UPDATE_JOB = UPDATE_JOB_initial,
      YTDLP_UPDATER_AVAILABLE = available, started_threads = []\<rparr>"

datatype event =
    Dispatch get_json_result dispatch_env
  | RunJob task job_env
  | GetStatus
  | ClearStatus
  | TriggerUpdate
  | GetUpdateStatus
  | UpdateBegin update_env
  | UpdateEnd update_env

fun step :: "pylib \<Rightarrow> backend \<Rightarrow> event \<Rightarrow> backend" where
  "step L B (Dispatch request env) = snd (download L env request B)"
| "step L B (RunJob t env) =
     B\<lparr>JOBS := end_jobs (run_job (YTDLP_UPDATER_AVAILABLE B) t env (JOBS B))\<rparr>"
| "step L B GetStatus = B"
| "step L B ClearStatus = snd (clear_status B)"
| "step L B TriggerUpdate = snd (update_yt_dlp_api B)"
| "step L B GetUpdateStatus = B"
| "step L B (UpdateBegin env) = B\<lparr>UPDATE_JOB := do_update_begin env (UPDATE_JOB B)\<rparr>"
| "step L B (UpdateEnd env) = B\<lparr>UPDATE_JOB := do_update_end env (UPDATE_JOB B)\<rparr>"

definition run_events :: "pylib \<Rightarrow> backend \<Rightarrow> event list \<Rightarrow> backend" where
  "run_events L B es = foldl (step L) B es"

section \<open>Configuration store\<close>

subsection \<open>The functions of \<^verbatim>\<open>os.path\<close> on a POSIX system\<close>

definition isabs :: "string \<Rightarrow> bool" where
  "isabs p = startswith p ''/''"

text \<open>\<^verbatim>\<open>os.path.join(a, b)\<close>\<close>

definition path_join :: "string \<Rightarrow> string \<Rightarrow> string" where
  "path_join a b =
     (if startswith b ''/'' then b
      else if a = [] \<or> last a = CHR ''/'' then a @ b
      else a @ ''/'' @ b)"

text \<open>\<^verbatim>\<open>sep.join(parts)\<close>\<close>

fun join_sep :: "string \<Rightarrow> string list \<Rightarrow> string" where
  "join_sep sep [] = []"
| "join_sep sep [x] = x"
| "join_sep sep (x # y # ys) = x @ sep @ join_sep sep (y # ys)"

text \<open>
  \<^verbatim>\<open>os.path.normpath\<close>: empty and \<^verbatim>\<open>.\<close> components are dropped, \<^verbatim>\<open>..\<close> removes the
  component before it, and exactly two leading slashes are kept as two.
\<close>

definition norm_step :: "nat \<Rightarrow> string list \<Rightarrow> string \<Rightarrow> string list" where
  "norm_step initial_slashes new_comps part =
     (if part = [] \<or> part = ''.'' then new_comps
      else if part \<noteq> ''..'' \<or> (initial_slashes = 0 \<and> new_comps = [])
              \<or> (new_comps \<noteq> [] \<and> last new_comps = ''..'')
           then new_comps @ [part]
      else if new_comps \<noteq> [] then butlast new_comps
      else new_comps)"

definition normpath :: "string \<Rightarrow> string" where
  "normpath path =
     (if path = [] then ''.''
      else
        let initial_slashes =
              (if startswith path ''//'' \<and> \<not> startswith path ''///'' then 2
               else if startswith path ''/'' then 1 else 0);
            comps = foldl (norm_step initial_slashes) [] (py_split (CHR ''/'') path);
            joined = replicate initial_slashes (CHR ''/'') @ join_sep ''/'' comps
        in if joined = [] then ''.'' else joined)"

text \<open>\<^verbatim>\<open>os.path.abspath\<close>, with the current directory as an argument.\<close>

definition abspath :: "string \<Rightarrow> string \<Rightarrow> string" where
  "abspath cwd path = normpath (if isabs path then path else path_join cwd path)"

fun common_prefix :: "'a list \<Rightarrow> 'a list \<Rightarrow> 'a list" where
  "common_prefix (x # xs) (y # ys) = (if x = y then x # common_prefix xs ys else [])"
| "common_prefix xs ys = []"

text \<open>
  \<^verbatim>\<open>os.path.commonpath([p, q])\<close>, the longest common sub-path; \<open>None\<close> is the
  \<^verbatim>\<open>ValueError\<close> for a mix of absolute and relative paths.
\<close>

definition path_comps :: "string \<Rightarrow> string list" where
  "path_comps p = filter (\<lambda>c. c \<noteq> [] \<and> c \<noteq> ''.'') (py_split (CHR ''/'') p)"

definition commonpath :: "string \<Rightarrow> string \<Rightarrow> string option" where
  "commonpath p q =
     (if isabs p \<noteq> isabs q then None
      else Some ((if isabs p then ''/'' else [])
                 @ join_sep ''/'' (common_prefix (path_comps p) (path_comps q))))"

text \<open>\<^verbatim>\<open>os.path.relpath(path, start)\<close>; \<open>None\<close> is the \<^verbatim>\<open>ValueError\<close> for an empty path.\<close>

definition relpath :: "string \<Rightarrow> string \<Rightarrow> string \<Rightarrow> string option" where
  "relpath cwd path start =
     (if path = [] then None
      else
        let start_list = filter (\<lambda>x. x \<noteq> []) (py_split (CHR ''/'') (abspath cwd start));
            path_list = filter (\<lambda>x. x \<noteq> []) (py_split (CHR ''/'') (abspath cwd path));
            i = length (common_prefix start_list path_list);
            rel_list = replicate (length start_list - i) ''..'' @ drop i path_list
        in Some (if rel_list = [] then ''.'' else join_sep ''/'' rel_list))"

subsection \<open>Saving and loading\<close>

text \<open>
  The surroundings of the store: the base directory, the current directory and whether
  \<^verbatim>\<open>settings.json\<close> can be opened for writing. The file is absent, present without a
  JSON object in it (empty, or anything that makes the \<^verbatim>\<open>try\<close> block raise), or holds a
  document; a stored document may lack any key and may carry the retired \<^verbatim>\<open>yt_dlp_path\<close>.
\<close>

record host_env =
  BASE_DIR :: string
  cwd :: string
  file_writable :: bool

record stored_doc =
  doc_yt_dlp_path :: "string option"
  doc_default_dir :: "string option"
  doc_default_args :: "string option"
  doc_download_dirs :: "(string, site_config) pydict option"
  doc_show_toasts :: "bool option"

datatype settings_file = NoFile | Unreadable | Stored stored_doc

text \<open>
  The test shared by both functions: an absolute path under the base directory is
  replaced by its relative form. \<open>Some r\<close> is the assignment of \<open>r\<close>; \<open>None\<close> leaves the
  value alone (also when a path function raises, which the code passes over).
\<close>

definition relative_under_base :: "host_env \<Rightarrow> string \<Rightarrow> string option" where
  "relative_under_base E d =
     (if isabs d then
        (case commonpath (abspath (cwd E) d) (abspath (cwd E) (BASE_DIR E)) of
           None \<Rightarrow> None
         | Some c \<Rightarrow>
             if c = abspath (cwd E) (BASE_DIR E) then relpath (cwd E) d (BASE_DIR E) else None)
      else None)"

definition normalize_cfg :: "host_env \<Rightarrow> site_config \<Rightarrow> site_config" where
  "normalize_cfg E cfg =
     (case dict_get cfg ''dir'' of
        None \<Rightarrow> cfg
      | Some dir_val \<Rightarrow>
          (case relative_under_base E dir_val of
             None \<Rightarrow> cfg
           | Some r \<Rightarrow> dict_set cfg ''dir'' r))"

definition normalize_dirs ::
    "host_env \<Rightarrow> (string, site_config) pydict \<Rightarrow> (string, site_config) pydict" where
  "normalize_dirs E dirs = map (\<lambda>kc. (fst kc, normalize_cfg E (snd kc))) dirs"

definition cfg_changes :: "host_env \<Rightarrow> site_config \<Rightarrow> bool" where
  "cfg_changes E cfg =
     (case dict_get cfg ''dir'' of
        None \<Rightarrow> False
      | Some dir_val \<Rightarrow> relative_under_base E dir_val \<noteq> None)"

text \<open>
  \<^verbatim>\<open>save_settings(data)\<close>: the new content of the file. A failure to write is logged and
  leaves the file as it was.
\<close>

definition save_settings :: "host_env \<Rightarrow> settings \<Rightarrow> settings_file \<Rightarrow> settings_file" where
  "save_settings E data file =
     (let dd = (case relative_under_base E (default_dir data) of
                  None \<Rightarrow> default_dir data
                | Some r \<Rightarrow> r);
          to_save = \<lparr>doc_yt_dlp_path = None,
                     doc_default_dir = Some dd,
                     doc_default_args = Some (default_args data),
                     doc_download_dirs = Some (normalize_dirs E (download_dirs data)),
                     doc_show_toasts = Some (show_toasts data)\<rparr>
      in if file_writable E then Stored to_save else file)"

definition base_defaults :: settings where
  "base_defaults =
     \<lparr>default_dir = ''downloads'',
      default_args = ''--recode-video mp4 --embed-thumbnail --embed-metadata'',
      download_dirs = [],
      show_toasts = True\<rparr>"

text \<open>
  Lines 210 to 224: the local \<^verbatim>\<open>runtime\<close>, a copy of \<^verbatim>\<open>base\<close> with the relative
  directories resolved against the base directory. Lines 226 to 248 go on to create the
  directory and may replace \<^verbatim>\<open>runtime["default_dir"]\<close> by a fallback; they touch
  neither \<^verbatim>\<open>base\<close> nor the settings file.
\<close>

definition resolve_cfg :: "host_env \<Rightarrow> site_config \<Rightarrow> site_config" where
  "resolve_cfg E cfg =
     (case dict_get cfg ''dir'' of
        None \<Rightarrow> cfg
      | Some dir_val \<Rightarrow>
          if dir_val \<noteq> [] \<and> \<not> isabs dir_val
          then dict_set cfg ''dir'' (abspath (cwd E) (path_join (BASE_DIR E) dir_val))
          else cfg)"

definition runtime_copy :: "host_env \<Rightarrow> settings \<Rightarrow> settings" where
  "runtime_copy E base =
     base\<lparr>default_dir :=
            (if \<not> isabs (default_dir base)
             then abspath (cwd E) (path_join (BASE_DIR E) (default_dir base))
             else default_dir base),
          download_dirs := map (\<lambda>kc. (fst kc, resolve_cfg E (snd kc))) (download_dirs base)\<rparr>"

text \<open>\<^verbatim>\<open>base.update(data)\<close>, after \<^verbatim>\<open>data['download_dirs'] = ddirs\<close>.\<close>

definition update_base ::
    "settings \<Rightarrow> stored_doc \<Rightarrow> string option \<Rightarrow> (string, site_config) pydict \<Rightarrow> settings" where
  "update_base base data dd ddirs =
     \<lparr>default_dir = (case dd of None \<Rightarrow> default_dir base | Some d \<Rightarrow> d),
      default_args = (case doc_default_args data of None \<Rightarrow> default_args base | Some a \<Rightarrow> a),
      download_dirs = ddirs,
      show_toasts = (case doc_show_toasts data of None \<Rightarrow> show_toasts base | Some b \<Rightarrow> b)\<rparr>"

text \<open>
  \<^verbatim>\<open>load_settings()\<close>: the value it returns and the file it leaves. Without a file it
  returns the local \<^verbatim>\<open>runtime\<close> (line 160); with a file it builds \<^verbatim>\<open>runtime\<close> as well and
  then returns \<^verbatim>\<open>base\<close> (line 257).
\<close>

definition load_settings :: "host_env \<Rightarrow> settings_file \<Rightarrow> settings \<times> settings_file" where
  "load_settings E file =
     (case file of
        NoFile \<Rightarrow>
          (base_defaults\<lparr>default_dir :=
              abspath (cwd E) (path_join (BASE_DIR E) (default_dir base_defaults)),
              download_dirs := []\<rparr>,
           save_settings E base_defaults file)
      | Unreadable \<Rightarrow>
          (let base = base_defaults;
               file' = save_settings E base file;
               runtime = runtime_copy E base
           in (base, file'))
      | Stored data \<Rightarrow>
          (let dd = (case doc_default_dir data of
                       None \<Rightarrow> None
                     | Some d \<Rightarrow>
                         (case relative_under_base E d of None \<Rightarrow> Some d | Some r \<Rightarrow> Some r));
               ddirs = (case doc_download_dirs data of None \<Rightarrow> [] | Some ds \<Rightarrow> ds);
               changed =
                 ((case doc_default_dir data of
                     None \<Rightarrow> False
                   | Some d \<Rightarrow> relative_under_base E d \<noteq> None)
                  \<or> list_ex (\<lambda>kc. cfg_changes E (snd kc)) ddirs);
               base = update_base base_defaults data dd (normalize_dirs E ddirs);
               file' = (if changed then save_settings E base file else file);
               runtime = runtime_copy E base
           in (base, file')))"

section \<open>Auxiliary definitions\<close>

text \<open>\<^verbatim>\<open>int(s)\<close> for a string of decimal digits, the inverse of \<^verbatim>\<open>str\<close>.\<close>

definition py_int :: "string \<Rightarrow> nat" where
  "py_int s = foldl (\<lambda>a c. 10 * a + (of_char c - 48)) 0 s"

text \<open>
  A state of a running task is quiet for the store \<open>J\<close> it started from when it still has
  the keys of \<open>J\<close> and the eviction step has not run.
\<close>

definition quiet :: "jobs \<Rightarrow> run_state \<Rightarrow> bool" where
  "quiet J st = (dict_keys (fst st) = dict_keys J \<and> EvictStep \<notin> set (snd st))"

subsection \<open>Concrete data for the examples\<close>

definition example_settings :: settings where
  "example_settings =
     \<lparr>default_dir = ''/srv/media'', default_args = ''--embed-metadata'',
      download_dirs =
        [(''*youtube*, *youtu.be*'', [(''dir'', ''/srv/media/yt''), (''args'', ''-x'')])],
      show_toasts = True\<rparr>"

definition example_backend :: backend where
  "example_backend = initial_backend example_settings True"

definition dispatch_at :: "nat \<Rightarrow> event" where
  "dispatch_at n =
     Dispatch (url_request ''https://youtu.be/abc'') \<lparr>now_ms = n, makedirs_ok = True\<rparr>"

definition eleven_dispatches :: "event list" where
  "eleven_dispatches = map dispatch_at [101, 102, 103, 104, 105, 106, 107, 108, 109, 110, 111]"

definition example_job :: job where
  "example_job =
     \<lparr>job_url = ''https://youtu.be/abc'', job_site = ''youtu.be'',
      job_status = ''starting'', job_dir = ''/srv/media/yt''\<rparr>"

definition example_jobs :: jobs where
  "example_jobs = map (\<lambda>n. (py_str_nat n, example_job)) [101, 102, 103, 104, 105, 106, 107, 108, 109, 110, 111]"

definition example_task :: task where
  "example_task =
     \<lparr>task_job_id = ''111'', task_url = ''https://youtu.be/abc'',
      task_download_dir = ''/srv/media/yt'', task_custom_args = Some ''-x''\<rparr>"

definition binary_fails :: job_env where
  "binary_fails =
     \<lparr>binary_result = BinaryExit 1 [] ''ERROR: unsupported'', library_result = LibraryOk\<rparr>"

definition both_fail :: job_env where
  "both_fail =
     \<lparr>binary_result = BinaryExit 1 [] ''ERROR: unsupported'',
      library_result = LibraryRaised ''ERROR: no formats''\<rparr>"

definition clock_steps_back :: "event list" where
  "clock_steps_back = [dispatch_at 500, dispatch_at 200]"

definition binary_succeeds :: job_env where
  "binary_succeeds = \<lparr>binary_result = BinaryExit 0 ''done'' [], library_result = LibraryOk\<rparr>"

definition example_host :: host_env where
  "example_host = \<lparr>BASE_DIR = ''/opt/ripperfox'', cwd = ''/'', file_writable = True\<rparr>"

definition example_update_env :: update_env where
  "example_update_env =
     \<lparr>clock_start = 100, clock_finish = 200, download_ok = True,
      ensure_result = EnsureReturned (Some ''/opt/ripperfox/yt-dlp'') (Some ''2025.01.15'')\<rparr>"

section \<open>Facts about the Python values\<close>

lemma dict_keys_dict_set:
  "dict_keys (dict_set d k v) =
     (if k \<in> set (dict_keys d) then dict_keys d else dict_keys d @ [k])"
  by (induction d) (force simp: dict_keys_def)+

lemma dict_get_dict_set_same: "dict_get (dict_set d k v) k = Some v"
  by (induction d) (auto simp: dict_get_def)

lemma dict_set_dict_set_same: "dict_set (dict_set d k v) k w = dict_set d k w"
  by (induction d) auto

lemma dict_set_append_new: "k \<notin> set (dict_keys d) \<Longrightarrow> dict_set d k v = d @ [(k, v)]"
  by (induction d) (auto simp: dict_keys_def)

lemma dict_get_Some_key: "dict_get d k = Some v \<Longrightarrow> k \<in> set (dict_keys d)"
  by (auto simp: dict_get_def dict_keys_def dest!: map_of_SomeD intro: rev_image_eqI)

lemma distinct_dict_set: "distinct (dict_keys d) \<Longrightarrow> distinct (dict_keys (dict_set d k v))"
  by (simp add: dict_keys_dict_set)

text \<open>Building a dictionary from entries with distinct keys keeps the entries as they are.\<close>

lemma foldl_dict_set_distinct:
  "distinct (map fst (ys @ xs)) \<Longrightarrow>
   foldl (\<lambda>d kv. dict_set d (fst kv) (snd kv)) ys xs = ys @ xs"
proof (induction xs arbitrary: ys)
  case Nil
  then show ?case by simp
next
  case (Cons x xs)
  have new: "fst x \<notin> set (dict_keys ys)"
    using Cons.prems by (auto simp: dict_keys_def)
  have "distinct (map fst ((ys @ [x]) @ xs))"
    using Cons.prems by simp
  then have "foldl (\<lambda>d kv. dict_set d (fst kv) (snd kv)) (ys @ [x]) xs = (ys @ [x]) @ xs"
    by (rule Cons.IH)
  with new show ?case
    by (simp add: dict_set_append_new [where v = "snd x"])
qed

lemma py_dict_distinct: "distinct (map fst xs) \<Longrightarrow> py_dict xs = xs"
  using foldl_dict_set_distinct [of "[]" xs] by (simp add: py_dict_def)

text \<open>Deleting the keys of a prefix, one after the other, leaves the rest.\<close>

lemma foldl_dict_del_prefix:
  "distinct (map fst (ks @ J)) \<Longrightarrow> foldl dict_del (ks @ J) (map fst ks) = J"
proof (induction ks)
  case Nil
  then show ?case by simp
next
  case (Cons a ks)
  have "dict_del ((a # ks) @ J) (fst a) = ks @ J"
  proof -
    have "fst a \<notin> fst ` set (ks @ J)" using Cons.prems by auto
    then have "\<forall>x \<in> set (ks @ J). fst x \<noteq> fst a" by (metis image_eqI)
    then have "filter (\<lambda>kv. fst kv \<noteq> fst a) (ks @ J) = ks @ J"
      by (simp only: filter_id_conv)
    then show ?thesis by (simp add: dict_del_def)
  qed
  then show ?case using Cons by simp
qed

lemma startswith_iff: "startswith s p \<longleftrightarrow> (\<exists>suf. s = p @ suf)"
  by (induction s p rule: startswith.induct) auto

text \<open>\<open>py_in\<close> is the substring relation.\<close>

lemma py_in_iff: "py_in sub s \<longleftrightarrow> (\<exists>pre suf. s = pre @ sub @ suf)"
proof (induction s)
  case Nil
  then show ?case by auto
next
  case (Cons c cs)
  show ?case
  proof
    assume "py_in sub (c # cs)"
    then consider "startswith (c # cs) sub" | "py_in sub cs" by auto
    then show "\<exists>pre suf. c # cs = pre @ sub @ suf"
    proof cases
      case 1
      then obtain suf where "c # cs = sub @ suf" by (auto simp: startswith_iff)
      then have "c # cs = [] @ sub @ suf" by simp
      then show ?thesis by blast
    next
      case 2
      then obtain pre suf where "cs = pre @ sub @ suf" using Cons.IH by auto
      then have "c # cs = (c # pre) @ sub @ suf" by simp
      then show ?thesis by blast
    qed
  next
    assume "\<exists>pre suf. c # cs = pre @ sub @ suf"
    then obtain pre suf where e: "c # cs = pre @ sub @ suf" by auto
    show "py_in sub (c # cs)"
    proof (cases pre)
      case Nil
      with e have "startswith (c # cs) sub" by (auto simp: startswith_iff)
      then show ?thesis by simp
    next
      case (Cons a pre')
      with e have "cs = pre' @ sub @ suf" by simp
      then have "py_in sub cs" using Cons.IH by blast
      then show ?thesis by simp
    qed
  qed
qed

lemma py_in_empty: "py_in [] h"
  by (induction h) auto

lemma strip_where_all: "list_all P p \<Longrightarrow> strip_where P p = []"
  by (auto simp: strip_where_def list_all_iff dest: set_dropWhileD)

lemma strip_only_stars:
  "list_all (\<lambda>c. c = CHR ''*'') p \<Longrightarrow> py_strip_chars ''*'' p = []"
  by (simp add: py_strip_chars_def strip_where_all)

text \<open>The decimal rendering of a number determines the number.\<close>

lemma of_char_digit: "d < 10 \<Longrightarrow> of_char (digit_char d) = 48 + d"
proof -
  assume "d < 10"
  then have "d \<in> {0, 1, 2, 3, 4, 5, 6, 7, 8, 9}" by auto
  then show ?thesis by (auto simp: digit_char_def)
qed

lemma py_int_snoc: "py_int (s @ [c]) = 10 * py_int s + (of_char c - 48)"
  by (simp add: py_int_def)

lemma py_int_str: "py_int (py_str_nat n) = n"
proof (induction n rule: py_str_nat.induct)
  case (1 n)
  show ?case
  proof (cases "n < 10")
    case True
    then show ?thesis
      by (simp add: py_str_nat.simps [of n] py_int_def of_char_digit)
  next
    case False
    then have "py_int (py_str_nat (n div 10)) = n div 10" using "1.IH" by simp
    moreover have "of_char (digit_char (n mod 10)) = 48 + n mod 10"
      by (rule of_char_digit) simp
    ultimately show ?thesis using False
      by (simp add: py_str_nat.simps [of n] py_int_snoc)
  qed
qed

lemma py_str_nat_inj: "py_str_nat m = py_str_nat n \<Longrightarrow> m = n"
  by (metis py_int_str)

section \<open>Facts about the site matcher\<close>

lemma snd_scan_patterns:
  "snd (scan_patterns L h cfg ps st) =
     (if list_ex (pattern_hit L h) ps then Some cfg else snd st)"
  by (induction ps) auto

lemma scan_groups_result:
  "\<not> truthy_cfg (snd st) \<Longrightarrow>
   (let r = snd (scan_groups L h dd st) in if truthy_cfg r then r else None) =
     first_nonempty_group L h dd"
proof (induction dd arbitrary: st)
  case Nil
  then show ?case by (simp add: first_nonempty_group_def)
next
  case (Cons g dd)
  obtain pg cfg where g: "g = (pg, cfg)" by (cases g)
  let ?st' = "scan_patterns L h cfg (group_patterns pg) st"
  show ?case
  proof (cases "truthy_cfg (snd ?st')")
    case True
    then have "list_ex (pattern_hit L h) (group_patterns pg) \<and> cfg \<noteq> []"
      using Cons.prems by (auto simp: snd_scan_patterns truthy_cfg_def split: if_splits)
    with True show ?thesis
      by (simp add: g first_nonempty_group_def group_qualifies_def snd_scan_patterns Let_def)
  next
    case False
    then have nq: "\<not> (cfg \<noteq> [] \<and> group_qualifies L h pg)"
      by (auto simp: snd_scan_patterns truthy_cfg_def group_qualifies_def split: if_splits)
    have "(let r = snd (scan_groups L h dd ?st') in if truthy_cfg r then r else None) =
        first_nonempty_group L h dd"
      using False by (rule Cons.IH)
    with False nq show ?thesis
      by (auto simp: g first_nonempty_group_def Let_def)
  qed
qed

lemma hostname_or_accepts:
  "urlparse_hostname L url = Inr ho \<Longrightarrow>
   hostname_or L url dflt =
     Inr (case ho of None \<Rightarrow> dflt | Some h \<Rightarrow> if h = [] then dflt else h)"
  by (simp add: hostname_or_def split: option.splits)

lemma hostname_or_rejects:
  "urlparse_hostname L url = Inl e \<Longrightarrow> hostname_or L url dflt = Inl e"
  by (simp add: hostname_or_def)

lemma get_site_config_scan:
  "hostname_or L url [] = Inr h \<Longrightarrow>
   get_site_config L url dd = Inr (first_nonempty_group L h dd)"
  using scan_groups_result [of "(None, None)" L h dd]
  by (simp add: get_site_config_def truthy_cfg_def Let_def)

lemma get_site_config_rejects:
  "urlparse_hostname L url = Inl e \<Longrightarrow> get_site_config L url dd = Inl e"
  by (simp add: get_site_config_def hostname_or_rejects)

text \<open>
  A group qualifies exactly when the host name glob-matches one of its patterns or
  contains that pattern, stripped of its leading and trailing asterisks.
\<close>

lemma group_qualifies_iff:
  "group_qualifies L h g \<longleftrightarrow>
     (\<exists>p \<in> set (group_patterns g).
        fnmatch L h p \<or> (\<exists>pre suf. h = pre @ py_strip_chars ''*'' p @ suf))"
  by (simp add: group_qualifies_def list_ex_iff pattern_hit_def py_in_iff)

section \<open>Facts about the job tracker\<close>

lemma evict_old_drop:
  assumes "distinct (dict_keys J)"
  shows "evict_old J = drop (length J - JOB_HISTORY_LIMIT) J"
proof (cases "length J > JOB_HISTORY_LIMIT")
  case False
  then show ?thesis by (simp add: evict_old_def)
next
  case True
  let ?n = "length J - JOB_HISTORY_LIMIT"
  have "distinct (map fst (take ?n J @ drop ?n J))"
    using assms by (simp add: dict_keys_def)
  then have "foldl dict_del (take ?n J @ drop ?n J) (map fst (take ?n J)) = drop ?n J"
    by (rule foldl_dict_del_prefix)
  then show ?thesis using True
    by (simp add: evict_old_def dict_keys_def take_map)
qed

lemma last_n_drop: "last_n n xs = drop (length xs - n) xs"
  by (simp add: last_n_def)

lemma put_status_tracked:
  "dict_get J k = Some j \<Longrightarrow>
   put_status k s (J, tr) = Inr (dict_set J k (j\<lparr>job_status := s\<rparr>), tr @ [SetStatus s])"
  by (simp add: put_status_def)

lemma put_status_quiet:
  "quiet J st \<Longrightarrow> put_status k s st = Inr st' \<Longrightarrow> quiet J st'"
  by (auto simp: put_status_def quiet_def dict_keys_dict_set split: option.splits)
    (metis dict_get_Some_key)

lemma binary_phase_quiet:
  "quiet J st \<Longrightarrow> quiet J (snd (binary_phase av t env st))"
proof -
  assume q: "quiet J st"
  then have q1: "quiet J (fst st, snd st @ [BinaryAttempt])"
    by (simp add: quiet_def)
  show ?thesis
    using q q1
    by (auto simp: binary_phase_def Let_def split: binary_result.splits sum.splits
        dest: put_status_quiet)
qed

lemma try_body_quiet:
  assumes "quiet J st"
  shows "case try_body av t env st of Inl (e, st') \<Rightarrow> quiet J st' | Inr (r, st') \<Rightarrow> quiet J st'"
proof (cases "task_custom_args t")
  case None
  then show ?thesis using assms by (simp add: try_body_def)
next
  case (Some a)
  obtain r st1 where b: "binary_phase av t env st = (r, st1)"
    by (cases "binary_phase av t env st")
  have q1: "quiet J st1" using binary_phase_quiet [OF assms, of av t env] b by simp
  then have q2: "quiet J (fst st1, snd st1 @ [LibraryAttempt])" by (simp add: quiet_def)
  show ?thesis
    using q1 q2 Some b
    by (auto simp: try_body_def Let_def split: library_result.splits sum.splits
        dest: put_status_quiet)
qed

text \<open>
  A run of the task either ends in the cleanup of a quiet state, or it ends without the
  eviction step and with the keys it started from.
\<close>

lemma run_job_cases:
  "(\<exists>st. quiet J st \<and> run_job av t env J = cleanup st)
   \<or> (EvictStep \<notin> set (run_trace (run_job av t env J))
       \<and> dict_keys (end_jobs (run_job av t env J)) = dict_keys J)"
proof (cases "put_status (task_job_id t) ''running'' (J, [])")
  case (Inl e)
  then show ?thesis by (simp add: run_job_def)
next
  case start: (Inr st0)
  have q0: "quiet J st0"
    using put_status_quiet [of J "(J, [])", OF _ start] by (simp add: quiet_def)
  note tb = try_body_quiet [OF q0, of av t env]
  show ?thesis
  proof (cases "try_body av t env st0")
    case raised: (Inl x)
    obtain e st where x: "x = (e, st)" by (cases x)
    have q: "quiet J st" using tb raised x by simp
    show ?thesis
    proof (cases "put_status (task_job_id t) (''error: '' @ str_exn e) st")
      case (Inl e')
      then show ?thesis
        using q raised x start by (simp add: run_job_def quiet_def)
    next
      case (Inr st')
      have "quiet J st'" using put_status_quiet [OF q Inr] .
      moreover have "run_job av t env J = cleanup st'"
        using raised x start Inr by (simp add: run_job_def)
      ultimately show ?thesis by blast
    qed
  next
    case normal: (Inr y)
    obtain r st where y: "y = (r, st)" by (cases y)
    have q: "quiet J st" using tb normal y by simp
    show ?thesis
    proof (cases r)
      case True
      then show ?thesis
        using q normal y start by (simp add: run_job_def quiet_def)
    next
      case False
      then have "run_job av t env J = cleanup st"
        using normal y start by (simp add: run_job_def)
      with q show ?thesis by blast
    qed
  qed
qed

lemma cleanup_quiet:
  assumes d: "distinct (dict_keys J)" and q: "quiet J st"
  shows "length (end_jobs (cleanup st)) \<le> JOB_HISTORY_LIMIT
     \<and> dict_keys (end_jobs (cleanup st)) = drop (length J - JOB_HISTORY_LIMIT) (dict_keys J)
     \<and> EvictStep \<in> set (run_trace (cleanup st))"
proof -
  have k: "dict_keys (fst st) = dict_keys J" using q by (simp add: quiet_def)
  then have dd: "distinct (dict_keys (fst st))" using d by simp
  have len: "length (fst st) = length J"
    using k by (metis dict_keys_def length_map)
  have "dict_keys (drop (length J - JOB_HISTORY_LIMIT) (fst st)) =
      drop (length J - JOB_HISTORY_LIMIT) (dict_keys J)"
    using k unfolding dict_keys_def by (metis drop_map)
  then show ?thesis
    using evict_old_drop [OF dd] len by (simp add: cleanup_def)
qed

text \<open>Every operation on the job store keeps its keys distinct.\<close>

lemma run_job_distinct:
  assumes d: "distinct (dict_keys J)"
  shows "distinct (dict_keys (end_jobs (run_job av t env J)))"
proof -
  consider st where "quiet J st" "run_job av t env J = cleanup st"
    | "dict_keys (end_jobs (run_job av t env J)) = dict_keys J"
    using run_job_cases [of J av t env] by blast
  then show ?thesis
  proof cases
    case 1
    then show ?thesis using cleanup_quiet [OF d "1"(1)] d by (simp add: distinct_drop)
  next
    case 2
    then show ?thesis using d by simp
  qed
qed

text \<open>
  A call of \<^verbatim>\<open>download()\<close> either leaves the backend as it was, or it is an accepted
  dispatch: the answer carries the job id of the millisecond, and the backend has the new
  entry and the new thread.
\<close>

lemma dispatch_url_cases:
  "snd (dispatch_url L env u B) = B \<and> (\<forall>j. http_body (fst (dispatch_url L env u B)) \<noteq> JobIdPayload j)
   \<or> (\<exists>entry t. dispatch_url L env u B =
          (Response 200 (JobIdPayload (py_str_nat (now_ms env))),
           B\<lparr>JOBS := dict_set (JOBS B) (py_str_nat (now_ms env)) entry,
             started_threads := started_threads B @ [DownloadThread t]\<rparr>)
        \<and> job_status entry = ''starting'')"
  by (auto simp: dispatch_url_def Let_def split: sum.splits option.splits)

lemma download_cases:
  "snd (download L env r B) = B \<and> (\<forall>j. http_body (fst (download L env r B)) \<noteq> JobIdPayload j)
   \<or> (\<exists>entry t. download L env r B =
          (Response 200 (JobIdPayload (py_str_nat (now_ms env))),
           B\<lparr>JOBS := dict_set (JOBS B) (py_str_nat (now_ms env)) entry,
             started_threads := started_threads B @ [DownloadThread t]\<rparr>)
        \<and> job_status entry = ''starting'')"
  using dispatch_url_cases [of L env _ B]
  by (simp add: download_def split: get_json_result.splits json_value.splits option.splits)

lemma download_JOBS_distinct:
  "distinct (dict_keys (JOBS B)) \<Longrightarrow> distinct (dict_keys (JOBS (snd (download L env u B))))"
  using download_cases [of L env u B] by (auto simp: distinct_dict_set)

lemma step_JOBS_distinct:
  "distinct (dict_keys (JOBS B)) \<Longrightarrow> distinct (dict_keys (JOBS (step L B e)))"
proof (cases e)
  case ClearStatus
  then show ?thesis by (simp add: clear_status_def dict_keys_def)
qed (auto simp: download_JOBS_distinct run_job_distinct update_yt_dlp_api_def)

lemma run_events_JOBS_distinct:
  "distinct (dict_keys (JOBS B)) \<Longrightarrow> distinct (dict_keys (JOBS (run_events L B es)))"
  unfolding run_events_def
  by (induction es arbitrary: B) (auto dest: step_JOBS_distinct)

lemma reachable_JOBS_distinct:
  "distinct (dict_keys (JOBS (run_events L (initial_backend S av) es)))"
  by (rule run_events_JOBS_distinct) (simp add: initial_backend_def dict_keys_def)

lemma download_job_id:
  "http_body (fst (download L env u B)) = JobIdPayload j \<Longrightarrow> j = py_str_nat (now_ms env)"
  using download_cases [of L env u B] by auto

text \<open>An accepted dispatch leaves its job tracked, with the status \<^verbatim>\<open>starting\<close>.\<close>

lemma download_tracks_job:
  "http_body (fst (download L env u B)) = JobIdPayload j \<Longrightarrow>
   \<exists>entry. dict_get (JOBS (snd (download L env u B))) j = Some entry
     \<and> job_status entry = ''starting''"
  using download_cases [of L env u B] by (auto simp: dict_get_dict_set_same)

section \<open>Facts about the update orchestrator\<close>

lemma download_UPDATE_JOB: "UPDATE_JOB (snd (download L env u B)) = UPDATE_JOB B"
  using download_cases [of L env u B] by auto

lemma step_not_idle:
  "upd_status (UPDATE_JOB B) \<noteq> ''idle'' \<Longrightarrow> upd_status (UPDATE_JOB (step L B e)) \<noteq> ''idle''"
  by (cases e)
    (auto simp: download_UPDATE_JOB clear_status_def update_yt_dlp_api_def do_update_begin_def
      do_update_end_def split: ensure_result.splits)

lemma run_events_not_idle:
  "upd_status (UPDATE_JOB B) \<noteq> ''idle'' \<Longrightarrow>
   upd_status (UPDATE_JOB (run_events L B es)) \<noteq> ''idle''"
  unfolding run_events_def
  by (induction es arbitrary: B) (auto dest: step_not_idle)

section \<open>Facts about the configuration store\<close>

lemma relative_under_base_relative: "\<not> isabs d \<Longrightarrow> relative_under_base E d = None"
  by (simp add: relative_under_base_def)

text \<open>
  A relative \<^verbatim>\<open>default_dir\<close> goes through saving and loading unchanged: it is written as
  it is and comes back as it was written.
\<close>

lemma load_after_save_relative:
  "file_writable E \<Longrightarrow> \<not> isabs (default_dir data) \<Longrightarrow>
   default_dir (fst (load_settings E (save_settings E data file))) = default_dir data"
  by (simp add: load_settings_def save_settings_def relative_under_base_relative
      update_base_def Let_def)

section \<open>The claims\<close>

subsection \<open>Configuration store\<close>

text \<open>
  Claim C1 says that a settings document saved with \<^verbatim>\<open>save_settings\<close> and loaded with
  \<^verbatim>\<open>load_settings\<close> comes back with \<^verbatim>\<open>default_dir\<close> resolved to an absolute path, while the
  file keeps the relative form. The code does not do that: saving the defaults and loading
  them under the base directory \<^verbatim>\<open>/opt/ripperfox\<close> returns the relative \<^verbatim>\<open>downloads\<close>. The
  resolved path \<^verbatim>\<open>/opt/ripperfox/downloads\<close> is what the local \<^verbatim>\<open>runtime\<close> holds, which the
  function builds and does not return; the file keeps the relative form.
\<close>

theorem load_settings_returns_stored_default_dir:
  "default_dir (fst (load_settings example_host (save_settings example_host base_defaults NoFile)))
     = ''downloads''
   \<and> isabs ''downloads'' = False
   \<and> default_dir (runtime_copy example_host
        (fst (load_settings example_host (save_settings example_host base_defaults NoFile))))
     = ''/opt/ripperfox/downloads''
   \<and> snd (load_settings example_host (save_settings example_host base_defaults NoFile))
     = save_settings example_host base_defaults NoFile"
  by code_simp

subsection \<open>Site matcher\<close>

text \<open>
  Claim C2, as amended: for a URL that \<^verbatim>\<open>urlparse\<close> accepts, with host name \<open>h\<close> (the empty
  string when the URL has none), \<^verbatim>\<open>get_site_config\<close> returns the configuration of the first
  pattern group, in the insertion order of the mapping, whose configuration is a non-empty
  dictionary and one of whose patterns (split at commas, trimmed, empties dropped) is
  glob-matched by \<open>h\<close> or, stripped of its leading and trailing asterisks only, occurs in
  \<open>h\<close>; the search stops at that group, and the result is \<open>None\<close> when there is no such
  group. For a URL that \<^verbatim>\<open>urlparse\<close> rejects, the \<^verbatim>\<open>ValueError\<close> leaves the function.
\<close>

theorem get_site_config_first_nonempty_group:
  "(urlparse_hostname L url = Inr ho \<and> h = (case ho of None \<Rightarrow> [] | Some x \<Rightarrow> x) \<longrightarrow>
      get_site_config L url dirs =
        Inr (case find (\<lambda>g. snd g \<noteq> [] \<and> group_qualifies L h (fst g)) dirs of
               None \<Rightarrow> None
             | Some g \<Rightarrow> Some (snd g)))
   \<and> (urlparse_hostname L url = Inl e \<longrightarrow> get_site_config L url dirs = Inl e)
   \<and> (group_qualifies L h' pattern_group \<longleftrightarrow>
        (\<exists>p \<in> set (group_patterns pattern_group).
           fnmatch L h' p \<or> (\<exists>pre suf. h' = pre @ py_strip_chars ''*'' p @ suf)))"
proof -
  have "get_site_config L url dirs = Inr (first_nonempty_group L h dirs)"
    if "urlparse_hostname L url = Inr ho" and "h = (case ho of None \<Rightarrow> [] | Some x \<Rightarrow> x)"
  proof -
    have "hostname_or L url [] = Inr h"
      using that by (simp add: hostname_or_accepts split: option.splits)
    then show ?thesis by (rule get_site_config_scan)
  qed
  then show ?thesis
    by (auto simp: first_nonempty_group_def get_site_config_rejects group_qualifies_iff
        split: option.splits)
qed

text \<open>The scenario of the specification: \<^verbatim>\<open>https://youtu.be/abc\<close> against one group.\<close>

theorem get_site_config_first_nonempty_group_witness:
  "urlparse_hostname (example_lib ''youtu.be'') ''https://youtu.be/abc'' = Inr (Some ''youtu.be'')
   \<and> get_site_config (example_lib ''youtu.be'') ''https://youtu.be/abc''
        [(''*youtube*, *youtu.be*'', [(''dir'', ''yt''), (''args'', ''-x'')])]
      = Inr (Some [(''dir'', ''yt''), (''args'', ''-x'')])"
proof -
  have h: "urlparse_hostname (example_lib ''youtu.be'') ''https://youtu.be/abc''
      = Inr (Some ''youtu.be'')"
    by code_simp
  have f: "find (\<lambda>g. snd g \<noteq> [] \<and> group_qualifies (example_lib ''youtu.be'') ''youtu.be'' (fst g))
        [(''*youtube*, *youtu.be*'', [(''dir'', ''yt''), (''args'', ''-x'')])]
      = Some (''*youtube*, *youtu.be*'', [(''dir'', ''yt''), (''args'', ''-x'')])"
    by code_simp
  have "get_site_config (example_lib ''youtu.be'') ''https://youtu.be/abc''
        [(''*youtube*, *youtu.be*'', [(''dir'', ''yt''), (''args'', ''-x'')])]
      = Inr (case find (\<lambda>g. snd g \<noteq> []
                \<and> group_qualifies (example_lib ''youtu.be'') ''youtu.be'' (fst g))
              [(''*youtube*, *youtu.be*'', [(''dir'', ''yt''), (''args'', ''-x'')])] of
               None \<Rightarrow> None
             | Some g \<Rightarrow> Some (snd g))"
    using h get_site_config_first_nonempty_group [of "example_lib ''youtu.be''"
        "''https://youtu.be/abc''" "Some ''youtu.be''" "''youtu.be''"]
    by simp
  then show ?thesis using h by (simp only: f option.case snd_conv simp_thms)
qed

text \<open>
  The claim as written fails in two ways. Where the first qualifying group has an empty
  configuration: the group \<^verbatim>\<open>*a*\<close> qualifies for the host \<^verbatim>\<open>a.example\<close>, and the matcher
  passes over it and answers with the configuration of the second group. And where a
  pattern has a wildcard in its middle: \<^verbatim>\<open>you*tube\<close> with its wildcard stripped is
  \<^verbatim>\<open>youtube\<close>, a substring of the host \<^verbatim>\<open>youtube.com\<close>, so the group qualifies in the words
  of the claim, while the code strips nothing from this pattern and finds no match.
\<close>

theorem get_site_config_differs_from_claim:
  "spec_first_group (example_lib ''a.example'') ''a.example''
        [(''*a*'', []), (''*example*'', [(''dir'', ''x'')])] = Some []
   \<and> get_site_config (example_lib ''a.example'') ''https://a.example/v''
        [(''*a*'', []), (''*example*'', [(''dir'', ''x'')])] = Inr (Some [(''dir'', ''x'')])
   \<and> strip_all_wildcards ''you*tube'' = ''youtube''
   \<and> spec_first_group (example_lib ''youtube.com'') ''youtube.com''
        [(''you*tube'', [(''dir'', ''yt'')])] = Some [(''dir'', ''yt'')]
   \<and> get_site_config (example_lib ''youtube.com'') ''https://youtube.com/watch''
        [(''you*tube'', [(''dir'', ''yt'')])] = Inr None"
  by code_simp

text \<open>
  Claim C10, as amended: when the first group of the mapping has a non-empty configuration
  and contains a pattern that consists of asterisks only, \<^verbatim>\<open>get_site_config\<close> returns that
  group's configuration for every URL that \<^verbatim>\<open>urlparse\<close> accepts, also for a URL without a
  host name: the pattern stripped of its asterisks is the empty string, which occurs in
  every host name. For a URL that \<^verbatim>\<open>urlparse\<close> rejects, the function raises \<^verbatim>\<open>ValueError\<close>.
\<close>

theorem only_stars_matches_every_url:
  "p \<in> set (group_patterns pattern_group) \<Longrightarrow> list_all (\<lambda>c. c = CHR ''*'') p \<Longrightarrow>
   cfg \<noteq> [] \<Longrightarrow>
   (urlparse_hostname L url = Inr ho \<longrightarrow>
      get_site_config L url ((pattern_group, cfg) # rest) = Inr (Some cfg))
   \<and> (urlparse_hostname L url = Inl e \<longrightarrow>
      get_site_config L url ((pattern_group, cfg) # rest) = Inl e)"
  using get_site_config_scan [OF hostname_or_accepts, of L url ho]
  by (auto simp: get_site_config_rejects first_nonempty_group_def group_qualifies_def
      list_ex_iff pattern_hit_def strip_only_stars py_in_empty)

theorem only_stars_matches_every_url_witness:
  "''**'' \<in> set (group_patterns ''*.example, **'')
   \<and> list_all (\<lambda>c. c = CHR ''*'') ''**''
   \<and> urlparse_hostname (example_lib []) ''not a url'' = Inr None
   \<and> get_site_config (example_lib []) ''not a url''
        [(''*.example, **'', [(''dir'', ''all'')]), (''*youtube*'', [(''dir'', ''yt'')])]
      = Inr (Some [(''dir'', ''all'')])"
proof -
  have a: "''**'' \<in> set (group_patterns ''*.example, **'')" by code_simp
  have b: "list_all (\<lambda>c. c = CHR ''*'') ''**''" by simp
  have c: "[(''dir'', ''all'')] \<noteq> ([] :: site_config)" by simp
  have d: "urlparse_hostname (example_lib []) ''not a url'' = Inr None" by code_simp
  show ?thesis
    using a b d only_stars_matches_every_url [OF a b c, of "example_lib []" "''not a url''" None]
    by simp
qed

text \<open>
  The claim as written fails in two ways. Where the configuration of that group is empty:
  the only group is \<^verbatim>\<open>*\<close> with the configuration \<^verbatim>\<open>{}\<close>, and the matcher returns \<open>None\<close>.
  And for a string that the URL parser rejects: with the group \<^verbatim>\<open>*\<close> and a non-empty
  configuration, \<^verbatim>\<open>http://[::1\<close> gives no configuration but the parser's exception.
\<close>

theorem only_stars_no_match:
  "''*'' \<in> set (group_patterns ''*'')
   \<and> list_all (\<lambda>c. c = CHR ''*'') ''*''
   \<and> get_site_config (example_lib ''youtu.be'') ''https://youtu.be/abc'' [(''*'', [])] = Inr None
   \<and> get_site_config (example_lib ''youtu.be'') ''http://[::1'' [(''*'', [(''dir'', ''all'')])]
      = Inl (ValueError ''Invalid IPv6 URL'')"
  by code_simp

subsection \<open>Download dispatcher and job tracker\<close>

text \<open>
  Claim C3, as amended: a dispatch request whose body is a JSON object in which the
  \<^verbatim>\<open>url\<close> field is absent, empty or falsy in another way is answered with status 400 and
  the error payload; a request whose body is JSON but not an object (\<^verbatim>\<open>null\<close>, a list, a
  string, a number) is answered with status 500, and a request whose body the framework
  does not take as JSON with the status of the framework's abort, neither with the error
  payload. In each of these cases the backend is left as it was: no job entry is written
  and no thread is started.
\<close>

theorem download_without_url:
  "(request = GetJsonReturned (JsonObject members)
      \<and> (dict_get members ''url'' = None
          \<or> (\<exists>v. dict_get members ''url'' = Some v \<and> \<not> json_truthy v)) \<longrightarrow>
      download L env request B = (Response 400 (ErrorPayload ''No URL provided''), B))
   \<and> (request = GetJsonReturned data \<and> (\<forall>ms. data \<noteq> JsonObject ms) \<longrightarrow>
      download L env request B = (Response 500 InternalServerError, B))
   \<and> (request = GetJsonAborted code \<longrightarrow>
      download L env request B = (Response code FrameworkAbort, B))"
  by (cases data) (auto simp: download_def)

theorem download_without_url_witness:
  "dict_get [(''url'', JsonString [])] ''url'' = Some (JsonString [])
   \<and> \<not> json_truthy (JsonString [])
   \<and> download (example_lib []) \<lparr>now_ms = 1000, makedirs_ok = True\<rparr>
        (GetJsonReturned (JsonObject [(''url'', JsonString [])])) example_backend
     = (Response 400 (ErrorPayload ''No URL provided''), example_backend)
   \<and> download (example_lib []) \<lparr>now_ms = 1000, makedirs_ok = True\<rparr>
        (GetJsonReturned (JsonObject [])) example_backend
     = (Response 400 (ErrorPayload ''No URL provided''), example_backend)
   \<and> JOBS example_backend = []
   \<and> started_threads example_backend = []"
proof -
  have a: "dict_get [(''url'', JsonString [])] ''url'' = Some (JsonString [])"
    by (simp add: dict_get_def)
  have b: "\<not> json_truthy (JsonString [])" by simp
  have c: "dict_get ([] :: (string \<times> json_value) list) ''url'' = None"
    by (simp add: dict_get_def)
  show ?thesis
    using a b c
      download_without_url [of "GetJsonReturned (JsonObject [(''url'', JsonString [])])"
        "[(''url'', JsonString [])]" "example_lib []" "\<lparr>now_ms = 1000, makedirs_ok = True\<rparr>"
        example_backend]
      download_without_url [of "GetJsonReturned (JsonObject [])" "[]" "example_lib []"
        "\<lparr>now_ms = 1000, makedirs_ok = True\<rparr>" example_backend]
    by (auto simp: example_backend_def initial_backend_def)
qed

text \<open>
  The claim as written fails for a request without a \<^verbatim>\<open>url\<close> field whose body is not an
  object: for the body \<^verbatim>\<open>null\<close> the answer is the status 500 without the error payload.
\<close>

theorem download_null_body:
  "download (example_lib []) \<lparr>now_ms = 1000, makedirs_ok = True\<rparr> (GetJsonReturned JsonNull)
        example_backend
     = (Response 500 InternalServerError, example_backend)
   \<and> Response 500 InternalServerError \<noteq> Response 400 (ErrorPayload ''No URL provided'')"
  by code_simp

text \<open>
  Claim C4, as amended: whenever the eviction step at the end of a job's task runs, the
  job store holds at most \<^verbatim>\<open>JOB_HISTORY_LIMIT\<close> (10) entries afterwards, and they are the
  most recently inserted entries of the store, in order: the oldest are removed first.
  Dispatching does not evict, so between eviction steps the store can hold more.
\<close>

theorem eviction_keeps_newest:
  assumes "distinct (dict_keys J)"
    and "EvictStep \<in> set (run_trace (run_job available t env J))"
  shows "length (end_jobs (run_job available t env J)) \<le> JOB_HISTORY_LIMIT
     \<and> dict_keys (end_jobs (run_job available t env J)) =
         drop (length J - JOB_HISTORY_LIMIT) (dict_keys J)"
  using run_job_cases [of J available t env] cleanup_quiet [OF assms(1)] assms(2)
  by auto

theorem eviction_keeps_newest_witness:
  "distinct (dict_keys example_jobs)
   \<and> EvictStep \<in> set (run_trace (run_job True example_task binary_fails example_jobs))
   \<and> length (end_jobs (run_job True example_task binary_fails example_jobs)) \<le> 10
   \<and> dict_keys (end_jobs (run_job True example_task binary_fails example_jobs))
       = [''102'', ''103'', ''104'', ''105'', ''106'', ''107'', ''108'', ''109'', ''110'', ''111'']"
proof -
  have a: "distinct (dict_keys example_jobs)" by code_simp
  have b: "EvictStep \<in> set (run_trace (run_job True example_task binary_fails example_jobs))"
    by code_simp
  have c: "drop (length example_jobs - JOB_HISTORY_LIMIT) (dict_keys example_jobs)
      = [''102'', ''103'', ''104'', ''105'', ''106'', ''107'', ''108'', ''109'', ''110'', ''111'']"
    by code_simp
  show ?thesis
    using a b c eviction_keeps_newest [OF a b] by (simp add: JOB_HISTORY_LIMIT_def)
qed

text \<open>
  The claim as written fails after eleven dispatches at eleven different milliseconds:
  each writes its entry, none of them evicts, and the store holds eleven jobs.
\<close>

theorem dispatches_exceed_history_limit:
  "length (JOBS (run_events (example_lib ''youtu.be'') example_backend eleven_dispatches)) = 11
   \<and> JOB_HISTORY_LIMIT < 11"
  by code_simp

text \<open>
  Claim C5, as amended: in every state of the job store, the status route returns exactly
  the most recent \<open>min(count, 10)\<close> tracked jobs, the last ones in insertion order; with
  more than ten jobs tracked these are exactly the ten most recent. The response body
  lists them in ascending order of their id strings, which is their insertion order
  whenever they were inserted with ascending ids.
\<close>

theorem status_returns_most_recent:
  "distinct (dict_keys (JOBS B)) \<Longrightarrow>
   recent = drop (length (JOBS B) - JOB_HISTORY_LIMIT) (JOBS B) \<Longrightarrow>
   status B = Response 200 (JobsPayload (sort_key fst recent))
   \<and> set (sort_key fst recent) = set recent
   \<and> length (sort_key fst recent) = min (length (JOBS B)) JOB_HISTORY_LIMIT
   \<and> sorted (map fst (sort_key fst recent))
   \<and> (sorted (map fst recent) \<longrightarrow> sort_key fst recent = recent)"
proof -
  assume d: "distinct (dict_keys (JOBS B))"
    and r: "recent = drop (length (JOBS B) - JOB_HISTORY_LIMIT) (JOBS B)"
  have "distinct (map fst recent)"
    using d unfolding r dict_keys_def by (simp add: distinct_drop flip: drop_map)
  then have "py_dict recent = recent" by (rule py_dict_distinct)
  then have "status B = Response 200 (JobsPayload (sort_key fst recent))"
    by (simp add: status_def jsonify_dict_def last_n_drop r)
  moreover have "length recent = min (length (JOBS B)) JOB_HISTORY_LIMIT"
    by (auto simp: r)
  ultimately show ?thesis
    by (simp add: sort_key_id_if_sorted)
qed

theorem status_returns_most_recent_witness:
  "distinct (dict_keys (JOBS (example_backend\<lparr>JOBS := example_jobs\<rparr>)))
   \<and> length example_jobs = 11
   \<and> sorted (map fst (tl example_jobs))
   \<and> status (example_backend\<lparr>JOBS := example_jobs\<rparr>)
       = Response 200 (JobsPayload (tl example_jobs))
   \<and> length (tl example_jobs) = 10"
proof -
  have a: "distinct (dict_keys (JOBS (example_backend\<lparr>JOBS := example_jobs\<rparr>)))"
    by code_simp
  have b: "tl example_jobs = drop (length (JOBS (example_backend\<lparr>JOBS := example_jobs\<rparr>))
      - JOB_HISTORY_LIMIT) (JOBS (example_backend\<lparr>JOBS := example_jobs\<rparr>))"
    by code_simp
  have c: "length example_jobs = 11" by code_simp
  have s: "sorted (map fst (tl example_jobs))" by code_simp
  have l: "length (tl example_jobs) = 10" by code_simp
  show ?thesis
    using a c s l status_returns_most_recent [OF a b] by simp
qed

text \<open>
  The claim as written fails for the order: after a dispatch at the millisecond 500 and
  one at the millisecond 200 (the clock was set back in between) the store holds the job
  \<^verbatim>\<open>500\<close> before the job \<^verbatim>\<open>200\<close>, and the response body lists \<^verbatim>\<open>200\<close> before \<^verbatim>\<open>500\<close>.
\<close>

theorem status_body_is_sorted:
  "JOBS (run_events (example_lib ''youtu.be'') example_backend clock_steps_back)
     = [(''500'', example_job), (''200'', example_job)]
   \<and> status (run_events (example_lib ''youtu.be'') example_backend clock_steps_back)
     = Response 200 (JobsPayload [(''200'', example_job), (''500'', example_job)])"
  by code_simp

text \<open>
  Claim C7: when the updater is available and the external binary exits with a non-zero
  code, the task records \<^verbatim>\<open>"error: " + stderr\<close> as the job's status and then attempts the
  library path, whatever the library does; when the library succeeds, \<^verbatim>\<open>"completed"\<close> is
  the last status recorded, and when it raises, the error of the library is. When the
  binary exits with code 0 the task records \<^verbatim>\<open>"completed"\<close> and does not attempt the
  library path. The job is one that the store tracks and whose argument string exists.
\<close>

theorem run_job_binary_fallback:
  assumes "dict_get J (task_job_id t) = Some j"
    and "task_custom_args t = Some a"
    and "binary_result env = BinaryExit rc out err"
  shows "(rc \<noteq> 0 \<longrightarrow>
            take 4 (run_trace (run_job True t env J)) =
              [SetStatus ''running'', BinaryAttempt, SetStatus (''error: '' @ err),
               LibraryAttempt]
          \<and> (library_result env = LibraryOk \<longrightarrow>
                run_trace (run_job True t env J) =
                  [SetStatus ''running'', BinaryAttempt, SetStatus (''error: '' @ err),
                   LibraryAttempt, SetStatus ''completed'', EvictStep]
              \<and> end_jobs (run_job True t env J) =
                  evict_old (dict_set J (task_job_id t) (j\<lparr>job_status := ''completed''\<rparr>))
              \<and> run_end (run_job True t env J) = Returned)
          \<and> (library_result env = LibraryRaised m \<longrightarrow>
                run_trace (run_job True t env J) =
                  [SetStatus ''running'', BinaryAttempt, SetStatus (''error: '' @ err),
                   LibraryAttempt, SetStatus (''error: '' @ m), EvictStep]
              \<and> end_jobs (run_job True t env J) =
                  evict_old (dict_set J (task_job_id t) (j\<lparr>job_status := ''error: '' @ m\<rparr>))
              \<and> run_end (run_job True t env J) = Returned))
       \<and> (rc = 0 \<longrightarrow>
            run_trace (run_job True t env J) =
              [SetStatus ''running'', BinaryAttempt, SetStatus ''completed'']
          \<and> end_jobs (run_job True t env J) =
              dict_set J (task_job_id t) (j\<lparr>job_status := ''completed''\<rparr>)
          \<and> run_end (run_job True t env J) = Returned)"
proof (cases "library_result env")
  case LibraryOk
  with assms show ?thesis
    by (simp add: run_job_def try_body_def binary_phase_def put_status_tracked
        dict_get_dict_set_same dict_set_dict_set_same cleanup_def Let_def)
next
  case (LibraryRaised x)
  with assms show ?thesis
    by (simp add: run_job_def try_body_def binary_phase_def put_status_tracked
        dict_get_dict_set_same dict_set_dict_set_same cleanup_def str_exn_def Let_def)
qed

theorem run_job_binary_fallback_witness:
  "dict_get example_jobs (task_job_id example_task) = Some example_job
   \<and> task_custom_args example_task = Some ''-x''
   \<and> binary_result binary_fails = BinaryExit 1 [] ''ERROR: unsupported''
   \<and> library_result binary_fails = LibraryOk
   \<and> run_trace (run_job True example_task binary_fails example_jobs) =
       [SetStatus ''running'', BinaryAttempt, SetStatus ''error: ERROR: unsupported'',
        LibraryAttempt, SetStatus ''completed'', EvictStep]
   \<and> dict_get (end_jobs (run_job True example_task binary_fails example_jobs)) ''111''
       = Some (example_job\<lparr>job_status := ''completed''\<rparr>)
   \<and> binary_result both_fail = BinaryExit 1 [] ''ERROR: unsupported''
   \<and> library_result both_fail = LibraryRaised ''ERROR: no formats''
   \<and> run_trace (run_job True example_task both_fail example_jobs) =
       [SetStatus ''running'', BinaryAttempt, SetStatus ''error: ERROR: unsupported'',
        LibraryAttempt, SetStatus ''error: ERROR: no formats'', EvictStep]"
proof -
  have a: "dict_get example_jobs (task_job_id example_task) = Some example_job" by code_simp
  have b: "task_custom_args example_task = Some ''-x''" by (simp add: example_task_def)
  have c: "binary_result binary_fails = BinaryExit 1 [] ''ERROR: unsupported''"
    by (simp add: binary_fails_def)
  have d: "library_result binary_fails = LibraryOk" by (simp add: binary_fails_def)
  have e: "dict_get (evict_old (dict_set example_jobs (task_job_id example_task)
        (example_job\<lparr>job_status := ''completed''\<rparr>))) ''111''
      = Some (example_job\<lparr>job_status := ''completed''\<rparr>)"
    by code_simp
  have c': "binary_result both_fail = BinaryExit 1 [] ''ERROR: unsupported''"
    by (simp add: both_fail_def)
  have d': "library_result both_fail = LibraryRaised ''ERROR: no formats''"
    by (simp add: both_fail_def)
  show ?thesis
    using a b c d e c' d' run_job_binary_fallback [OF a b c, of "''ERROR: no formats''"]
      run_job_binary_fallback [OF a b c', of "''ERROR: no formats''"]
    by simp
qed

text \<open>
  Claim C8 says that the eviction step runs in every terminal case of a job's task. The
  code misses the case of a successful binary: the task returns right after recording
  \<^verbatim>\<open>"completed"\<close> (line 392) and never reaches the cleanup. With eleven tracked jobs and a
  binary that exits with code 0, the trace has no eviction step and eleven jobs remain.
\<close>

theorem binary_success_skips_eviction:
  "run_trace (run_job True example_task binary_succeeds example_jobs)
     = [SetStatus ''running'', BinaryAttempt, SetStatus ''completed'']
   \<and> run_end (run_job True example_task binary_succeeds example_jobs) = Returned
   \<and> length (end_jobs (run_job True example_task binary_succeeds example_jobs)) = 11
   \<and> JOB_HISTORY_LIMIT < 11"
  by code_simp

text \<open>
  Claim C9, as amended: two dispatches allocate distinct job ids exactly when their
  creation times differ in whole milliseconds; two dispatches within the same millisecond
  receive the same job id.
\<close>

theorem job_ids_distinct_iff_ms_differ:
  "http_body (fst (download L env1 u1 B1)) = JobIdPayload j1 \<Longrightarrow>
   http_body (fst (download L' env2 u2 B2)) = JobIdPayload j2 \<Longrightarrow>
   (j1 = j2 \<longleftrightarrow> now_ms env1 = now_ms env2)"
  by (auto dest!: download_job_id dest: py_str_nat_inj)

theorem job_ids_distinct_iff_ms_differ_witness:
  "http_body (fst (download (example_lib ''youtu.be'') \<lparr>now_ms = 1000, makedirs_ok = True\<rparr>
        (url_request ''https://youtu.be/abc'') example_backend)) = JobIdPayload ''1000''
   \<and> http_body (fst (download (example_lib ''youtu.be'') \<lparr>now_ms = 1001, makedirs_ok = True\<rparr>
        (url_request ''https://youtu.be/abc'') example_backend)) = JobIdPayload ''1001''
   \<and> ''1000'' \<noteq> ''1001''"
proof -
  have a: "http_body (fst (download (example_lib ''youtu.be'')
        \<lparr>now_ms = 1000, makedirs_ok = True\<rparr>
        (url_request ''https://youtu.be/abc'') example_backend)) = JobIdPayload ''1000''"
    by code_simp
  have b: "http_body (fst (download (example_lib ''youtu.be'')
        \<lparr>now_ms = 1001, makedirs_ok = True\<rparr>
        (url_request ''https://youtu.be/abc'') example_backend)) = JobIdPayload ''1001''"
    by code_simp
  show ?thesis
    using a b job_ids_distinct_iff_ms_differ [OF a b] by simp
qed

text \<open>
  The claim as written fails for two dispatches in the same millisecond: the requests
  differ, both are accepted, both get the job id \<^verbatim>\<open>1000\<close>, and the second entry replaces
  the first, so that one job is tracked.
\<close>

theorem same_ms_same_job_id:
  "http_body (fst (download (example_lib ''youtu.be'') \<lparr>now_ms = 1000, makedirs_ok = True\<rparr>
        (url_request ''https://youtu.be/abc'') example_backend)) = JobIdPayload ''1000''
   \<and> http_body (fst (download (example_lib ''youtu.be'') \<lparr>now_ms = 1000, makedirs_ok = True\<rparr>
        (url_request ''https://youtu.be/xyz'')
        (snd (download (example_lib ''youtu.be'') \<lparr>now_ms = 1000, makedirs_ok = True\<rparr>
          (url_request ''https://youtu.be/abc'') example_backend)))) = JobIdPayload ''1000''
   \<and> length (JOBS (snd (download (example_lib ''youtu.be'')
        \<lparr>now_ms = 1000, makedirs_ok = True\<rparr> (url_request ''https://youtu.be/xyz'')
        (snd (download (example_lib ''youtu.be'') \<lparr>now_ms = 1000, makedirs_ok = True\<rparr>
          (url_request ''https://youtu.be/abc'') example_backend))))) = 1"
  by code_simp

subsection \<open>Update orchestrator\<close>

text \<open>
  Claim C6, as amended: the update status is \<^verbatim>\<open>idle\<close> before any trigger; the trigger
  itself leaves the status record as it is and only starts the background task; the first
  write of the task sets the status to \<^verbatim>\<open>running\<close>; the write that ends the task sets it
  to exactly one of \<^verbatim>\<open>succeeded\<close> and \<^verbatim>\<open>failed\<close>; and no event ever sets a status other
  than \<^verbatim>\<open>idle\<close> back to \<^verbatim>\<open>idle\<close>.
\<close>

theorem update_job_lifecycle:
  "upd_status (UPDATE_JOB (initial_backend S available)) = ''idle''
   \<and> UPDATE_JOB (snd (update_yt_dlp_api B)) = UPDATE_JOB B
   \<and> upd_status (do_update_begin env U) = ''running''
   \<and> (upd_status (do_update_end env U) = ''succeeded''
        \<or> upd_status (do_update_end env U) = ''failed'')
   \<and> (upd_status (do_update env U) = ''succeeded'' \<or> upd_status (do_update env U) = ''failed'')
   \<and> (upd_status (UPDATE_JOB B) \<noteq> ''idle'' \<longrightarrow>
        upd_status (UPDATE_JOB (run_events L B es)) \<noteq> ''idle'')"
  by (auto simp: initial_backend_def UPDATE_JOB_initial_def update_yt_dlp_api_def
      do_update_begin_def do_update_end_def do_update_def run_events_not_idle
      split: ensure_result.splits)

theorem update_job_lifecycle_witness:
  "upd_status (UPDATE_JOB (step (example_lib []) example_backend
        (UpdateBegin example_update_env))) = ''running''
   \<and> upd_status (UPDATE_JOB (run_events (example_lib [])
        (step (example_lib []) example_backend (UpdateBegin example_update_env))
        [GetUpdateStatus, TriggerUpdate, UpdateEnd example_update_env, ClearStatus]))
      \<noteq> ''idle''"
proof -
  have a: "upd_status (UPDATE_JOB (step (example_lib []) example_backend
        (UpdateBegin example_update_env))) = ''running''"
    by code_simp
  then have b: "upd_status (UPDATE_JOB (step (example_lib []) example_backend
        (UpdateBegin example_update_env))) \<noteq> ''idle''"
    by simp
  show ?thesis
    using a b update_job_lifecycle [of _ _
        "step (example_lib []) example_backend (UpdateBegin example_update_env)" _ _
        "example_lib []"
        "[GetUpdateStatus, TriggerUpdate, UpdateEnd example_update_env, ClearStatus]"]
    by blast
qed

text \<open>
  The claim as written fails right after the first trigger: the route accepts the request
  and starts the thread, and the status is still \<^verbatim>\<open>idle\<close>, not \<^verbatim>\<open>running\<close>.
\<close>

theorem trigger_leaves_status_idle:
  "fst (update_yt_dlp_api example_backend) = Response 200 StartedPayload
   \<and> started_threads (snd (update_yt_dlp_api example_backend)) = [UpdateThread]
   \<and> upd_status (UPDATE_JOB (snd (update_yt_dlp_api example_backend))) = ''idle''
   \<and> ''idle'' \<noteq> ''running''"
  by code_simp

end
